theory Spec2Isabelle
  imports Main "HOL-Library.Char_ord" "HOL-Library.List_Lexorder" "HOL-Library.AList"
begin

unbundle bit_operations_syntax

section \<open>Artist endpoints of the Spotify client (artist.go)\<close>

text \<open>
  The development follows \<^verbatim>\<open>artist.go\<close>: each method of \<^verbatim>\<open>Client\<close> builds a
  URL, performs one GET through the client's transport and decodes the JSON answer.
  Go strings are byte strings (\<^typ>\<open>string\<close>), a nil pointer argument is \<^term>\<open>None\<close>,
  and a Go result pair \<^verbatim>\<open>(value, error)\<close> is a sum with the error on the left.
\<close>

subsection \<open>Library functions used by the file\<close>

text \<open>\<^verbatim>\<open>strings.Join\<close>: the elements separated by \<open>sep\<close>.\<close>

fun strings_Join :: "string list \<Rightarrow> string \<Rightarrow> string" where
  "strings_Join [] sep = []"
| "strings_Join [x] sep = x"
| "strings_Join (x # y # ys) sep = x @ sep @ strings_Join (y # ys) sep"

text \<open>\<^verbatim>\<open>strings.Split\<close> at a separator of one byte: the pieces between its occurrences.\<close>

fun strings_Split :: "string \<Rightarrow> char \<Rightarrow> string list" where
  "strings_Split [] sep = [[]]"
| "strings_Split (c # cs) sep =
     (if c = sep then [] # strings_Split cs sep
      else (case strings_Split cs sep of
              [] \<Rightarrow> [[c]]
            | x # xs \<Rightarrow> (c # x) # xs))"

text \<open>
  \<^verbatim>\<open>strconv.Itoa\<close>: the decimal digits of the absolute value, most significant first,
  after a minus sign for a negative number.
\<close>

definition digit_char :: "nat \<Rightarrow> char" where
  "digit_char d = char_of (48 + d)"

fun digits10 :: "nat \<Rightarrow> string" where
  "digits10 n = (if n < 10 then [digit_char n] else digits10 (n div 10) @ [digit_char (n mod 10)])"

declare digits10.simps [simp del]

definition Itoa :: "int \<Rightarrow> string" where
  "Itoa i = (if i < 0 then CHR ''-'' # digits10 (nat (- i)) else digits10 (nat i))"

text \<open>Reading decimal text back, used to say what \<open>base 10\<close> means.\<close>

definition is_digit :: "char \<Rightarrow> bool" where
  "is_digit c = (CHR ''0'' \<le> c \<and> c \<le> CHR ''9'')"

definition decimal_value :: "string \<Rightarrow> nat" where
  "decimal_value s = foldl (\<lambda>a c. 10 * a + (of_char c - 48)) 0 s"

fun Atoi :: "string \<Rightarrow> int option" where
  "Atoi [] = None"
| "Atoi (c # cs) =
     (if c = CHR ''-'' then
        (if cs \<noteq> [] \<and> list_all is_digit cs then Some (- int (decimal_value cs)) else None)
      else if list_all is_digit (c # cs) then Some (int (decimal_value (c # cs))) else None)"

text \<open>
  \<^verbatim>\<open>url.QueryEscape\<close>: letters, digits and \<^verbatim>\<open>- _ . ~\<close> are kept, a space becomes
  \<^verbatim>\<open>+\<close>, every other byte becomes \<^verbatim>\<open>%XX\<close> with upper-case hexadecimal digits.
\<close>

definition is_alnum :: "char \<Rightarrow> bool" where
  "is_alnum c = ((CHR ''a'' \<le> c \<and> c \<le> CHR ''z'') \<or> (CHR ''A'' \<le> c \<and> c \<le> CHR ''Z'')
                 \<or> (CHR ''0'' \<le> c \<and> c \<le> CHR ''9''))"

definition shouldEscape :: "char \<Rightarrow> bool" where
  "shouldEscape c = (\<not> (is_alnum c \<or> c = CHR ''-'' \<or> c = CHR ''_'' \<or> c = CHR ''.'' \<or> c = CHR ''~''))"

definition upperhex :: "nat \<Rightarrow> char" where
  "upperhex n = ''0123456789ABCDEF'' ! n"

definition escape_byte :: "char \<Rightarrow> string" where
  "escape_byte c =
     (if c = CHR '' '' then ''+''
      else if shouldEscape c then
        [CHR ''%'', upperhex (of_char c div 16), upperhex (of_char c mod 16)]
      else [c])"

definition QueryEscape :: "string \<Rightarrow> string" where
  "QueryEscape s = concat (map escape_byte s)"

text \<open>
  \<^verbatim>\<open>url.QueryUnescape\<close>, used to say what \<open>percent-encoded\<close> means: \<^verbatim>\<open>%XX\<close> is the
  byte with that hexadecimal code, \<^verbatim>\<open>+\<close> is a space, an incomplete escape is an error.
\<close>

definition unhex :: "char \<Rightarrow> nat option" where
  "unhex c =
     (if CHR ''0'' \<le> c \<and> c \<le> CHR ''9'' then Some (of_char c - 48)
      else if CHR ''a'' \<le> c \<and> c \<le> CHR ''f'' then Some (of_char c - 87)
      else if CHR ''A'' \<le> c \<and> c \<le> CHR ''F'' then Some (of_char c - 55)
      else None)"

fun QueryUnescape :: "string \<Rightarrow> string option" where
  "QueryUnescape [] = Some []"
| "QueryUnescape (c # cs) =
     (if c = CHR ''%'' then
        (case cs of
           h # l # rest \<Rightarrow>
             (case (unhex h, unhex l) of
                (Some a, Some b) \<Rightarrow> map_option (Cons (char_of (16 * a + b))) (QueryUnescape rest)
              | _ \<Rightarrow> None)
         | _ \<Rightarrow> None)
      else map_option (Cons (if c = CHR ''+'' then CHR '' '' else c)) (QueryUnescape cs))"

text \<open>
  \<^verbatim>\<open>url.Values\<close> is a map from a key to a list of values; it is kept as an association
  list with distinct keys. \<^verbatim>\<open>Set\<close> replaces the values of a key by one value.
  \<^verbatim>\<open>Encode\<close> sorts the keys bytewise and writes \<^verbatim>\<open>key=value\<close> for every value, both
  escaped, separated by \<^verbatim>\<open>&\<close>.
\<close>

type_synonym Values = "(string \<times> string list) list"

definition Values_Set :: "string \<Rightarrow> string \<Rightarrow> Values \<Rightarrow> Values" where
  "Values_Set key val v = AList.update key [val] v"

definition Values_pairs :: "Values \<Rightarrow> string list" where
  "Values_pairs v =
     concat (map (\<lambda>(k, vs). map (\<lambda>x. QueryEscape k @ ''='' @ QueryEscape x) vs) (sort_key fst v))"

definition Values_Encode :: "Values \<Rightarrow> string" where
  "Values_Encode v = strings_Join (Values_pairs v) ''&''"

subsection \<open>JSON documents and Go's error values\<close>

text \<open>
  A JSON value as \<^verbatim>\<open>encoding/json\<close> scans it: the members of an object in the order
  of the text (a name may occur twice), strings unquoted, a number as its literal.
  A response body is \<^term>\<open>Some j\<close> when the stream begins with the well-formed value
  \<open>j\<close> and \<^term>\<open>None\<close> otherwise; reading the body does not fail.
\<close>

datatype json =
    JNull
  | JBool bool
  | JNumber string
  | JString string
  | JArray "json list"
  | JObject "(string \<times> json) list"

text \<open>
  Go's non-nil \<^verbatim>\<open>error\<close> values: the two kinds \<^verbatim>\<open>encoding/json\<close> makes here (input
  that is not one well-formed value; a value that does not fit the Go type), and the
  errors of anything else (the transport, \<^verbatim>\<open>decodeError\<close>).
\<close>

datatype 'x error = MalformedInput | UnmarshalTypeError | Other 'x

text \<open>
  \<^verbatim>\<open>json.NewDecoder(body).Decode(&v)\<close> and \<^verbatim>\<open>json.Unmarshal(raw, &v)\<close> for a fresh
  \<open>v\<close>, given how a JSON value is stored into the type of \<open>v\<close>.
\<close>

definition Decode :: "(json \<Rightarrow> 'a option) \<Rightarrow> json option \<Rightarrow> 'x error + 'a" where
  "Decode store body =
     (case body of
        None \<Rightarrow> Inl MalformedInput
      | Some j \<Rightarrow> (case store j of None \<Rightarrow> Inl UnmarshalTypeError | Some a \<Rightarrow> Inr a))"

definition Unmarshal :: "(json \<Rightarrow> 'a option) \<Rightarrow> json option \<Rightarrow> 'x error + 'a" where
  "Unmarshal store raw = Decode store raw"

text \<open>
  Storing into a slice: \<^verbatim>\<open>null\<close> leaves the slice as it is, an array replaces it by
  its elements in order, anything else does not fit. Storing into a pointer:
  \<^verbatim>\<open>null\<close> gives the nil pointer, any other value is stored into a new element.
\<close>

definition store_slice :: "(json \<Rightarrow> 'a option) \<Rightarrow> 'a list \<Rightarrow> json \<Rightarrow> 'a list option" where
  "store_slice elem old j =
     (case j of
        JNull \<Rightarrow> Some old
      | JArray xs \<Rightarrow> those (map elem xs)
      | _ \<Rightarrow> None)"

definition store_pointer :: "(json \<Rightarrow> 'a option) \<Rightarrow> json \<Rightarrow> 'a option option" where
  "store_pointer elem j = (case j of JNull \<Rightarrow> Some None | _ \<Rightarrow> map_option Some (elem j))"

text \<open>
  A member of an object goes to the struct field whose JSON name equals its key up to
  case: ASCII letters, and the Kelvin sign (bytes E2 84 AA) and the long s (bytes C5 BF),
  which fold to K and S.
\<close>

definition to_upper :: "char \<Rightarrow> char" where
  "to_upper c =
     (case map_of (zip ''abcdefghijklmnopqrstuvwxyz'' ''ABCDEFGHIJKLMNOPQRSTUVWXYZ'') c of
        Some u \<Rightarrow> u
      | None \<Rightarrow> c)"

fun foldName :: "string \<Rightarrow> string" where
  "foldName [] = []"
| "foldName (c # cs) =
     (if c = CHR 0xE2 \<and> take 2 cs = [CHR 0x84, CHR 0xAA] then CHR ''K'' # foldName (drop 2 cs)
      else if c = CHR 0xC5 \<and> take 1 cs = [CHR 0xBF] then CHR ''S'' # foldName (drop 1 cs)
      else to_upper c # foldName cs)"

definition key_matches :: "string \<Rightarrow> string \<Rightarrow> bool" where
  "key_matches name key = (foldName key = foldName name)"

text \<open>
  A struct whose only field is a slice with JSON name \<open>name\<close>: the members of the
  object are read in order, and each one that matches is stored into the field. For
  an object with several arrays for the one field this follows the documentation of the
  package (each array replaces the slice); the properties below are about objects with
  one member for the field.
\<close>

fun store_members :: "string \<Rightarrow> (json \<Rightarrow> 'a option) \<Rightarrow> (string \<times> json) list \<Rightarrow> 'a list \<Rightarrow> 'a list option" where
  "store_members name elem [] acc = Some acc"
| "store_members name elem ((k, v) # ms) acc =
     (if key_matches name k then
        (case store_slice elem acc v of
           None \<Rightarrow> None
         | Some acc' \<Rightarrow> store_members name elem ms acc')
      else store_members name elem ms acc)"

definition store_wrapper :: "string \<Rightarrow> (json \<Rightarrow> 'a option) \<Rightarrow> json \<Rightarrow> 'a list option" where
  "store_wrapper name elem j =
     (case j of
        JNull \<Rightarrow> Some []
      | JObject ms \<Rightarrow> store_members name elem ms []
      | _ \<Rightarrow> None)"

subsection \<open>Declarations of the package that artist.go uses\<close>

text \<open>
  \<^verbatim>\<open>ID\<close> is a string type (the file converts it with \<^verbatim>\<open>string(id)\<close>).
  \<^verbatim>\<open>Options\<close> has three pointer fields; a nil pointer is \<^term>\<open>None\<close>, so an explicit
  zero differs from an unset field.
\<close>

type_synonym ID = string

record Options =
  Country :: "string option"
  Limit :: "int option"
  Offset :: "int option"

text \<open>
  The constants \<^verbatim>\<open>baseAddress\<close> and \<^verbatim>\<open>CountryUSA\<close>, the functions \<^verbatim>\<open>decodeError\<close> and
  \<^verbatim>\<open>toStringSlice\<close> and the method \<^verbatim>\<open>AlbumType.encode\<close> are declared in other files
  of the package. The methods below take them as the fields of a record; \<open>'at\<close> is the
  type \<^verbatim>\<open>AlbumType\<close> and \<open>'x\<close> the type of the error values made outside
  \<^verbatim>\<open>encoding/json\<close>. \<^verbatim>\<open>decodeError\<close> reads the body of a response and returns an
  \<^verbatim>\<open>error\<close> that is never nil (section 4.3 of the spec: a structured error, or a
  generic decode error).
\<close>

record ('at, 'x) package =
  baseAddress :: string
  CountryUSA :: string
  AlbumType_encode :: "'at \<Rightarrow> string"
  toStringSlice :: "ID list \<Rightarrow> string list"
  decodeError :: "json option \<Rightarrow> 'x error"

subsection \<open>The request URL of ArtistAlbumsOpt\<close>

text \<open>Lines 200 to 218: the \<^verbatim>\<open>url.Values\<close> filled in when \<^verbatim>\<open>options\<close> is not nil.\<close>

definition ArtistAlbumsOpt_values ::
  "('at, 'x) package \<Rightarrow> Options \<Rightarrow> 'at option \<Rightarrow> Values" where
  "ArtistAlbumsOpt_values pkg options t =
     (let values0 = [];
          values1 = (case t of
                       Some a \<Rightarrow> Values_Set ''album_type'' (AlbumType_encode pkg a) values0
                     | None \<Rightarrow> values0);
          values2 = (case Options.Country options of
                       Some c \<Rightarrow> Values_Set ''market'' c values1
                     | None \<Rightarrow> Values_Set ''market'' (CountryUSA pkg) values1);
          values3 = (case Options.Limit options of
                       Some l \<Rightarrow> Values_Set ''limit'' (Itoa l) values2
                     | None \<Rightarrow> values2);
          values4 = (case Options.Offset options of
                       Some off \<Rightarrow> Values_Set ''offset'' (Itoa off) values3
                     | None \<Rightarrow> values3)
      in values4)"

text \<open>Lines 197 to 222: the URL that is requested.\<close>

definition ArtistAlbumsOpt_uri ::
  "('at, 'x) package \<Rightarrow> ID \<Rightarrow> Options option \<Rightarrow> 'at option \<Rightarrow> string" where
  "ArtistAlbumsOpt_uri pkg artistID options t =
     (let uri = baseAddress pkg @ ''artists/'' @ artistID @ ''/albums'' in
      case options of
        None \<Rightarrow> uri
      | Some opts \<Rightarrow>
          (let query = Values_Encode (ArtistAlbumsOpt_values pkg opts t) in
           if query \<noteq> [] then uri @ ''?'' @ query else uri))"

subsection \<open>The transport\<close>

text \<open>
  A method reads the status code and the body of a response. The client's transport
  \<^verbatim>\<open>c.http\<close> is outside the package: its \<^verbatim>\<open>Get\<close> takes the URL and the state \<open>'w\<close>
  of the world and returns an error or a response, and the new state, so that every
  request a method makes is visible in the state it returns.
\<close>

record response =
  StatusCode :: int
  Body :: "json option"

record ('w, 'x) Client =
  http_Get :: "string \<Rightarrow> 'w \<Rightarrow> ('x error + response) \<times> 'w"

definition StatusOK :: int where
  "StatusOK = 200"

subsection \<open>Pages\<close>

text \<open>
  Modelled from the spec: the types \<^verbatim>\<open>rawPage\<close> and \<^verbatim>\<open>SimpleAlbumPage\<close> are declared in
  another file of the package. Their fields are the ones \<^verbatim>\<open>ArtistAlbumsOpt\<close> reads and
  writes; the JSON names are those of the page envelope in section 6
  (\<^verbatim>\<open>href\<close>, \<^verbatim>\<open>total\<close>, \<^verbatim>\<open>limit\<close>, \<^verbatim>\<open>offset\<close>, \<^verbatim>\<open>next\<close>, \<^verbatim>\<open>previous\<close>, \<^verbatim>\<open>items\<close>); the items
  are kept raw (\<^verbatim>\<open>json.RawMessage\<close>, \<^term>\<open>None\<close> while nothing was stored).
\<close>

record rawPage =
  Endpoint :: string
  Limit :: int
  Offset :: int
  Total :: int
  Next :: string
  Previous :: string
  Items :: "json option"

record 'album SimpleAlbumPage =
  Endpoint :: string
  Limit :: int
  Offset :: int
  Total :: int
  Next :: string
  Previous :: string
  Albums :: "'album list"

text \<open>
  Modelled from the spec: how a JSON value is stored into a \<^verbatim>\<open>rawPage\<close>, whose
  declaration is in another file. The fields are of type \<^verbatim>\<open>string\<close> and \<^verbatim>\<open>int\<close>
  (64 bits): \<^verbatim>\<open>null\<close> leaves such a field as it is, a number must be a decimal integer
  literal in range. The members of the object are read in order; a later member for a
  field overwrites an earlier one.
\<close>

definition store_string :: "string \<Rightarrow> json \<Rightarrow> string option" where
  "store_string old j = (case j of JNull \<Rightarrow> Some old | JString s \<Rightarrow> Some s | _ \<Rightarrow> None)"

definition store_int :: "int \<Rightarrow> json \<Rightarrow> int option" where
  "store_int old j =
     (case j of
        JNull \<Rightarrow> Some old
      | JNumber lit \<Rightarrow>
          (case Atoi lit of
             Some n \<Rightarrow> if - (2 ^ 63) \<le> n \<and> n < 2 ^ 63 then Some n else None
           | None \<Rightarrow> None)
      | _ \<Rightarrow> None)"

definition rawPage_member :: "string \<Rightarrow> json \<Rightarrow> rawPage \<Rightarrow> rawPage option" where
  "rawPage_member k v p =
     (if key_matches ''href'' k then
        map_option (\<lambda>s. p\<lparr>rawPage.Endpoint := s\<rparr>) (store_string (rawPage.Endpoint p) v)
      else if key_matches ''limit'' k then
        map_option (\<lambda>n. p\<lparr>rawPage.Limit := n\<rparr>) (store_int (rawPage.Limit p) v)
      else if key_matches ''offset'' k then
        map_option (\<lambda>n. p\<lparr>rawPage.Offset := n\<rparr>) (store_int (rawPage.Offset p) v)
      else if key_matches ''total'' k then
        map_option (\<lambda>n. p\<lparr>rawPage.Total := n\<rparr>) (store_int (rawPage.Total p) v)
      else if key_matches ''next'' k then
        map_option (\<lambda>s. p\<lparr>rawPage.Next := s\<rparr>) (store_string (rawPage.Next p) v)
      else if key_matches ''previous'' k then
        map_option (\<lambda>s. p\<lparr>rawPage.Previous := s\<rparr>) (store_string (rawPage.Previous p) v)
      else if key_matches ''items'' k then Some (p\<lparr>Items := Some v\<rparr>)
      else Some p)"

fun rawPage_members :: "(string \<times> json) list \<Rightarrow> rawPage \<Rightarrow> rawPage option" where
  "rawPage_members [] p = Some p"
| "rawPage_members ((k, v) # ms) p =
     (case rawPage_member k v p of None \<Rightarrow> None | Some p' \<Rightarrow> rawPage_members ms p')"

definition rawPage_zero :: rawPage where
  "rawPage_zero = \<lparr>rawPage.Endpoint = [], rawPage.Limit = 0, rawPage.Offset = 0,
     rawPage.Total = 0, rawPage.Next = [], rawPage.Previous = [], Items = None\<rparr>"

definition store_rawPage :: "json \<Rightarrow> rawPage option" where
  "store_rawPage j =
     (case j of
        JNull \<Rightarrow> Some rawPage_zero
      | JObject ms \<Rightarrow> rawPage_members ms rawPage_zero
      | _ \<Rightarrow> None)"

subsection \<open>The methods of Client\<close>

text \<open>
  The types \<^verbatim>\<open>FullArtist\<close>, \<^verbatim>\<open>FullTrack\<close> and \<^verbatim>\<open>SimpleAlbum\<close> are type parameters:
  no method reads a field of them, and the types of their fields are declared in other
  files. Each method takes, as \<open>store\<close>, how \<^verbatim>\<open>encoding/json\<close> stores a JSON value
  into a new value of the type. Closing the body has no effect that a method returns.
  The functions of the same names at package level call these methods on
  \<^verbatim>\<open>DefaultClient\<close>, which is declared in another file.
\<close>

text \<open>Lines 66 to 82.\<close>

definition FindArtist ::
  "('at, 'x) package \<Rightarrow> (json \<Rightarrow> 'artist option) \<Rightarrow> ('w, 'x) Client \<Rightarrow> ID \<Rightarrow> 'w
     \<Rightarrow> ('x error + 'artist) \<times> 'w" where
  "FindArtist pkg store c ident w =
     (let uri = baseAddress pkg @ ''artists/'' @ ident in
      case http_Get c uri w of
        (Inl err, w') \<Rightarrow> (Inl err, w')
      | (Inr resp, w') \<Rightarrow>
          if StatusCode resp \<noteq> StatusOK then (Inl (decodeError pkg (Body resp)), w')
          else (case Decode store (Body resp) of
                  Inl err \<Rightarrow> (Inl err, w')
                | Inr a \<Rightarrow> (Inr a, w')))"

text \<open>Lines 95 to 113; the struct has the one field \<^verbatim>\<open>Artists []*FullArtist\<close>.\<close>

definition FindArtists ::
  "('at, 'x) package \<Rightarrow> (json \<Rightarrow> 'artist option) \<Rightarrow> ('w, 'x) Client \<Rightarrow> ID list \<Rightarrow> 'w
     \<Rightarrow> ('x error + 'artist option list) \<times> 'w" where
  "FindArtists pkg store c ids w =
     (let uri = baseAddress pkg @ ''artists?ids='' @ strings_Join (toStringSlice pkg ids) '','' in
      case http_Get c uri w of
        (Inl err, w') \<Rightarrow> (Inl err, w')
      | (Inr resp, w') \<Rightarrow>
          if StatusCode resp \<noteq> StatusOK then (Inl (decodeError pkg (Body resp)), w')
          else (case Decode (store_wrapper ''Artists'' (store_pointer store)) (Body resp) of
                  Inl err \<Rightarrow> (Inl err, w')
                | Inr artists \<Rightarrow> (Inr artists, w')))"

text \<open>Lines 124 to 143; the struct has the one field \<^verbatim>\<open>Tracks []FullTrack\<close>, named \<^verbatim>\<open>tracks\<close>.\<close>

definition ArtistsTopTracks ::
  "('at, 'x) package \<Rightarrow> (json \<Rightarrow> 'track option) \<Rightarrow> ('w, 'x) Client \<Rightarrow> ID \<Rightarrow> string \<Rightarrow> 'w
     \<Rightarrow> ('x error + 'track list) \<times> 'w" where
  "ArtistsTopTracks pkg store c artistID country w =
     (let uri = baseAddress pkg @ ''artists/'' @ artistID @ ''/top-tracks?country='' @ country in
      case http_Get c uri w of
        (Inl err, w') \<Rightarrow> (Inl err, w')
      | (Inr resp, w') \<Rightarrow>
          if StatusCode resp \<noteq> StatusOK then (Inl (decodeError pkg (Body resp)), w')
          else (case Decode (store_wrapper ''tracks'' store) (Body resp) of
                  Inl err \<Rightarrow> (Inl err, w')
                | Inr tracks \<Rightarrow> (Inr tracks, w')))"

text \<open>Lines 155 to 173; the struct has the one field \<^verbatim>\<open>Artists []FullArtist\<close>, named \<^verbatim>\<open>artists\<close>.\<close>

definition FindRelatedArtists ::
  "('at, 'x) package \<Rightarrow> (json \<Rightarrow> 'artist option) \<Rightarrow> ('w, 'x) Client \<Rightarrow> ID \<Rightarrow> 'w
     \<Rightarrow> ('x error + 'artist list) \<times> 'w" where
  "FindRelatedArtists pkg store c ident w =
     (let uri = baseAddress pkg @ ''artists/'' @ ident @ ''/related-artists'' in
      case http_Get c uri w of
        (Inl err, w') \<Rightarrow> (Inl err, w')
      | (Inr resp, w') \<Rightarrow>
          if StatusCode resp \<noteq> StatusOK then (Inl (decodeError pkg (Body resp)), w')
          else (case Decode (store_wrapper ''artists'' store) (Body resp) of
                  Inl err \<Rightarrow> (Inl err, w')
                | Inr artists \<Rightarrow> (Inr artists, w')))"

text \<open>
  Lines 196 to 249. \<^verbatim>\<open>json.Unmarshal\<close> of the raw items fails on empty input
  (no member \<^verbatim>\<open>items\<close> was stored).
\<close>

definition ArtistAlbumsOpt ::
  "('at, 'x) package \<Rightarrow> (json \<Rightarrow> 'album option) \<Rightarrow> ('w, 'x) Client \<Rightarrow> ID \<Rightarrow> Options option
     \<Rightarrow> 'at option \<Rightarrow> 'w \<Rightarrow> ('x error + 'album SimpleAlbumPage) \<times> 'w" where
  "ArtistAlbumsOpt pkg store c artistID options t w =
     (let uri = ArtistAlbumsOpt_uri pkg artistID options t in
      case http_Get c uri w of
        (Inl err, w') \<Rightarrow> (Inl err, w')
      | (Inr resp, w') \<Rightarrow>
          if StatusCode resp \<noteq> StatusOK then (Inl (decodeError pkg (Body resp)), w')
          else (case Decode store_rawPage (Body resp) of
                  Inl err \<Rightarrow> (Inl err, w')
                | Inr p \<Rightarrow>
                    (case Unmarshal (store_slice store []) (Items p) of
                       Inl err \<Rightarrow> (Inl err, w')
                     | Inr albums \<Rightarrow>
                         (Inr \<lparr>Endpoint = rawPage.Endpoint p, Limit = rawPage.Limit p,
                               Offset = rawPage.Offset p, Total = rawPage.Total p,
                               Next = rawPage.Next p, Previous = rawPage.Previous p,
                               Albums = albums\<rparr>, w'))))"

text \<open>Lines 182 to 184.\<close>

definition ArtistAlbums ::
  "('at, 'x) package \<Rightarrow> (json \<Rightarrow> 'album option) \<Rightarrow> ('w, 'x) Client \<Rightarrow> ID \<Rightarrow> 'w
     \<Rightarrow> ('x error + 'album SimpleAlbumPage) \<times> 'w" where
  "ArtistAlbums pkg store c artistID w = ArtistAlbumsOpt pkg store c artistID None None w"

subsection \<open>Album types\<close>

text \<open>
  Modelled from the spec: the type \<^verbatim>\<open>AlbumType\<close> and its method \<^verbatim>\<open>encode\<close> are declared
  in another file of the package, and the package has no decoder. Section 4.1: a closed
  set of named categories, combined by a bitwise OR of their flags and written as their
  tokens joined by commas. The spec does not name the categories: category \<open>i\<close> has the
  flag \<open>2 ^ i\<close> and the token \<open>names ! i\<close> of a table \<open>names\<close>. Decoding splits the
  text at the commas and gives the categories whose token occurs.
\<close>

type_synonym AlbumType = nat

definition AlbumType_flag :: "nat \<Rightarrow> AlbumType" where
  "AlbumType_flag i = 2 ^ i"

definition AlbumType_combine :: "nat list \<Rightarrow> AlbumType" where
  "AlbumType_combine cs = fold (\<lambda>i a. a OR AlbumType_flag i) cs 0"

definition AlbumType_encode_tokens :: "string list \<Rightarrow> AlbumType \<Rightarrow> string" where
  "AlbumType_encode_tokens names a =
     strings_Join (map (\<lambda>i. names ! i) (filter (\<lambda>i. bit a i) [0..<length names])) '',''"

definition AlbumType_decode_tokens :: "string list \<Rightarrow> string \<Rightarrow> nat list" where
  "AlbumType_decode_tokens names s =
     filter (\<lambda>i. names ! i \<in> set (strings_Split s (CHR '',''))) [0..<length names]"

subsection \<open>Example values\<close>

text \<open>
  Modelled from the spec: \<^verbatim>\<open>decodeError\<close> is declared in another file of the package.
  Sections 4.3 and 6: a body of the shape \<^verbatim>\<open>{error: {status, message}}\<close> gives an error
  with that code and message, any other body a generic decode error.
\<close>

datatype example_error = ConnectionRefused | ApiError int string | ErrorNotDecoded

definition decodeError_envelope :: "json option \<Rightarrow> example_error error" where
  "decodeError_envelope body =
     (case body of
        Some (JObject ms) \<Rightarrow>
          (case map_of ms ''error'' of
             Some (JObject es) \<Rightarrow>
               (case (map_of es ''status'', map_of es ''message'') of
                  (Some (JNumber lit), Some (JString m)) \<Rightarrow>
                    (case Atoi lit of
                       Some n \<Rightarrow> Other (ApiError n m)
                     | None \<Rightarrow> Other ErrorNotDecoded)
                | _ \<Rightarrow> Other ErrorNotDecoded)
           | _ \<Rightarrow> Other ErrorNotDecoded)
      | _ \<Rightarrow> Other ErrorNotDecoded)"

text \<open>
  A package for the examples: the address of the service, the code of the United
  States and the four album types of the service.
\<close>

definition example_names :: "string list" where
  "example_names = [''album'', ''single'', ''appears_on'', ''compilation'']"

definition example_package :: "(AlbumType, example_error) package" where
  "example_package =
     \<lparr>baseAddress = ''https://api.spotify.com/v1/'', CountryUSA = ''US'',
      AlbumType_encode = AlbumType_encode_tokens example_names, toStringSlice = (\<lambda>ids. ids),
      decodeError = decodeError_envelope\<rparr>"

definition no_options :: Options where
  "no_options = \<lparr>Country = None, Options.Limit = None, Options.Offset = None\<rparr>"

definition some_options :: Options where
  "some_options = \<lparr>Country = Some ''SE'', Options.Limit = Some 10, Options.Offset = Some 20\<rparr>"

text \<open>
  Transports whose state is the list of the URLs requested so far: one that refuses
  every connection, one that answers every request with the same response.
\<close>

definition refusing_client :: "(string list, example_error) Client" where
  "refusing_client = \<lparr>http_Get = (\<lambda>uri log. (Inl (Other ConnectionRefused), log @ [uri]))\<rparr>"

definition serving_client :: "response \<Rightarrow> (string list, example_error) Client" where
  "serving_client resp = \<lparr>http_Get = (\<lambda>uri log. (Inr resp, log @ [uri]))\<rparr>"

text \<open>The answer of the service for an identifier it does not know.\<close>

definition not_found :: response where
  "not_found = \<lparr>StatusCode = 404,
     Body = Some (JObject [(''error'',
       JObject [(''status'', JNumber ''404''), (''message'', JString ''not found'')])])\<rparr>"

text \<open>An entity is shown by its name: the member \<^verbatim>\<open>name\<close> of an object.\<close>

definition store_name :: "json \<Rightarrow> string option" where
  "store_name j =
     (case j of
        JNull \<Rightarrow> Some []
      | JObject ms \<Rightarrow>
          (case map_of ms ''name'' of
             None \<Rightarrow> Some []
           | Some JNull \<Rightarrow> Some []
           | Some (JString n) \<Rightarrow> Some n
           | Some _ \<Rightarrow> None)
      | _ \<Rightarrow> None)"

text \<open>
  The answer to a request for the artists A, B, A and Z, where the service does not know
  Z; a page of ten albums out of 37.
\<close>

definition artist_objects :: "json list" where
  "artist_objects =
     [JObject [(''name'', JString ''Alpha'')], JObject [(''name'', JString ''Beta'')],
      JObject [(''name'', JString ''Alpha'')], JNull]"

definition four_artists :: response where
  "four_artists = \<lparr>StatusCode = 200, Body = Some (JObject [(''artists'', JArray artist_objects)])\<rparr>"

definition album_names :: "string list" where
  "album_names = [''a0'', ''a1'', ''a2'', ''a3'', ''a4'', ''a5'', ''a6'', ''a7'', ''a8'', ''a9'']"

definition album_objects :: "json list" where
  "album_objects = map (\<lambda>n. JObject [(''name'', JString n)]) album_names"

definition album_envelope :: json where
  "album_envelope = JObject
       [(''href'', JString ''https://api.spotify.com/v1/artists/X/albums?offset=20&limit=10''),
        (''items'', JArray album_objects),
        (''limit'', JNumber ''10''),
        (''next'', JString ''https://api.spotify.com/v1/artists/X/albums?offset=30&limit=10''),
        (''offset'', JNumber ''20''),
        (''previous'', JString ''https://api.spotify.com/v1/artists/X/albums?offset=10&limit=10''),
        (''total'', JNumber ''37'')]"

definition album_page :: response where
  "album_page = \<lparr>StatusCode = 200, Body = Some album_envelope\<rparr>"

section \<open>Properties\<close>

subsection \<open>Decimal text\<close>

lemma is_digit_digit_char: "d < 10 \<Longrightarrow> is_digit (digit_char d)"
  by (simp add: is_digit_def digit_char_def less_eq_char_def)

lemma of_char_digit_char: "d < 10 \<Longrightarrow> of_char (digit_char d) = 48 + d"
  by (simp add: digit_char_def)

lemma digits10_nonempty: "digits10 n \<noteq> []"
  by (subst digits10.simps) simp

lemma digits10_all_digits: "list_all is_digit (digits10 n)"
proof (induction n rule: digits10.induct)
  case (1 n)
  show ?case
  proof (cases "n < 10")
    case True
    then show ?thesis by (subst digits10.simps) (simp add: is_digit_digit_char)
  next
    case False
    with 1 show ?thesis by (subst digits10.simps) (simp add: is_digit_digit_char)
  qed
qed

lemma decimal_value_snoc: "decimal_value (s @ [c]) = 10 * decimal_value s + (of_char c - 48)"
  by (simp add: decimal_value_def)

lemma decimal_value_digits10: "decimal_value (digits10 n) = n"
proof (induction n rule: digits10.induct)
  case (1 n)
  show ?case
  proof (cases "n < 10")
    case True
    then show ?thesis
      by (subst digits10.simps) (simp add: decimal_value_def of_char_digit_char)
  next
    case False
    with 1 show ?thesis
      by (subst digits10.simps) (simp add: decimal_value_snoc of_char_digit_char)
  qed
qed

lemma digit_not_minus: "is_digit c \<Longrightarrow> c \<noteq> CHR ''-''"
  by (auto simp: is_digit_def less_eq_char_def)

lemma Atoi_digits: "s \<noteq> [] \<Longrightarrow> list_all is_digit s \<Longrightarrow> Atoi s = Some (int (decimal_value s))"
  by (cases s) (auto dest: digit_not_minus)

lemma Atoi_Itoa: "Atoi (Itoa i) = Some i"
proof (cases "i < 0")
  case True
  then show ?thesis
    by (simp add: Itoa_def digits10_nonempty digits10_all_digits decimal_value_digits10)
next
  case False
  then show ?thesis
    by (simp add: Itoa_def Atoi_digits digits10_nonempty digits10_all_digits decimal_value_digits10)
qed

lemma escape_byte_digit: "is_digit c \<Longrightarrow> escape_byte c = [c]"
  by (auto simp: escape_byte_def shouldEscape_def is_alnum_def is_digit_def less_eq_char_def)

lemma QueryEscape_digits: "list_all is_digit s \<Longrightarrow> QueryEscape s = s"
  by (induction s) (simp_all add: QueryEscape_def escape_byte_digit)

lemma QueryEscape_Itoa: "QueryEscape (Itoa i) = Itoa i"
  using QueryEscape_digits [OF digits10_all_digits]
  by (simp add: Itoa_def QueryEscape_def escape_byte_def shouldEscape_def)

subsection \<open>The query string\<close>

lemma strings_Split_nonempty: "strings_Split s sep \<noteq> []"
  by (induction s) (auto split: list.splits)

lemma strings_Split_no_sep: "sep \<notin> set x \<Longrightarrow> strings_Split x sep = [x]"
  by (induction x) auto

lemma strings_Split_append:
  "sep \<notin> set x \<Longrightarrow> strings_Split (x @ sep # s) sep = x # strings_Split s sep"
  by (induction x) auto

lemma strings_Split_Join:
  "xs \<noteq> [] \<Longrightarrow> \<forall>x\<in>set xs. sep \<notin> set x \<Longrightarrow> strings_Split (strings_Join xs [sep]) sep = xs"
proof (induction xs "[sep]" rule: strings_Join.induct)
  case 1
  then show ?case by simp
next
  case (2 x)
  then show ?case by (simp add: strings_Split_no_sep)
next
  case (3 x y ys)
  then show ?case by (simp add: strings_Split_append)
qed

lemma upperhex_in: "n < 16 \<Longrightarrow> upperhex n \<in> set ''0123456789ABCDEF''"
  unfolding upperhex_def by (rule nth_mem) simp

lemma upperhex_not_amp: "n < 16 \<Longrightarrow> upperhex n \<noteq> CHR ''&''"
  using upperhex_in [of n] by auto

lemma of_char_div_16: "of_char (c::char) div 16 < (16::nat)"
proof -
  have "of_char c < (256::nat)" by (rule nat_of_char_less_256)
  then show ?thesis by arith
qed

lemma escape_byte_no_amp: "CHR ''&'' \<notin> set (escape_byte c)"
proof -
  have "upperhex (of_char c div 16) \<noteq> CHR ''&''" "upperhex (of_char c mod 16) \<noteq> CHR ''&''"
    by (simp_all add: upperhex_not_amp of_char_div_16)
  then show ?thesis
    by (auto simp: escape_byte_def shouldEscape_def is_alnum_def)
qed

lemma QueryEscape_no_amp: "CHR ''&'' \<notin> set (QueryEscape s)"
  by (simp add: QueryEscape_def escape_byte_no_amp)

lemma unhex_upperhex: "n < 16 \<Longrightarrow> unhex (upperhex n) = Some n"
proof -
  have "\<forall>n\<in>set [0..<16]. unhex (upperhex n) = Some n"
    by code_simp
  moreover assume "n < 16"
  ultimately show ?thesis by simp
qed

lemma char_of_div_mod_16: "char_of (16 * (of_char c div 16) + of_char c mod (16::nat)) = c"
  by simp

lemma QueryUnescape_escape_byte:
  "QueryUnescape (escape_byte c @ rest) = map_option (Cons c) (QueryUnescape rest)"
proof (cases "c = CHR '' ''")
  case True
  then show ?thesis by (simp add: escape_byte_def)
next
  case space: False
  show ?thesis
  proof (cases "shouldEscape c")
    case True
    have "of_char c mod 16 < (16::nat)" by simp
    with True space show ?thesis
      by (simp add: escape_byte_def unhex_upperhex of_char_div_16 char_of_div_mod_16)
  next
    case False
    then have "c \<noteq> CHR ''%''" "c \<noteq> CHR ''+''"
      by (auto simp: shouldEscape_def is_alnum_def less_eq_char_def)
    with False space show ?thesis
      by (simp add: escape_byte_def)
  qed
qed

lemma QueryUnescape_QueryEscape: "QueryUnescape (QueryEscape s) = Some s"
  by (induction s) (simp_all add: QueryEscape_def QueryUnescape_escape_byte del: QueryUnescape.simps(2))

lemma QueryEscape_keys:
  "QueryEscape ''album_type'' = ''album_type''" "QueryEscape ''limit'' = ''limit''"
  "QueryEscape ''market'' = ''market''" "QueryEscape ''offset'' = ''offset''"
  by (simp_all add: QueryEscape_def escape_byte_def shouldEscape_def is_alnum_def)

lemma Values_pairs_ArtistAlbumsOpt:
  "Values_pairs (ArtistAlbumsOpt_values pkg options t) =
     (case t of None \<Rightarrow> [] | Some a \<Rightarrow> [''album_type='' @ QueryEscape (AlbumType_encode pkg a)]) @
     (case Options.Limit options of None \<Rightarrow> [] | Some l \<Rightarrow> [''limit='' @ QueryEscape (Itoa l)]) @
     [''market='' @ QueryEscape (case Options.Country options of None \<Rightarrow> CountryUSA pkg | Some c \<Rightarrow> c)] @
     (case Options.Offset options of None \<Rightarrow> [] | Some off \<Rightarrow> [''offset='' @ QueryEscape (Itoa off)])"
  by (cases t; cases "Options.Country options"; cases "Options.Limit options"; cases "Options.Offset options")
     (simp_all add: ArtistAlbumsOpt_values_def Values_Set_def Values_pairs_def QueryEscape_keys Let_def)

lemma strings_Join_nonempty: "xs \<noteq> [] \<Longrightarrow> hd xs \<noteq> [] \<Longrightarrow> strings_Join xs sep \<noteq> []"
  by (induction xs sep rule: strings_Join.induct) auto

lemma Values_Encode_ArtistAlbumsOpt_nonempty:
  "Values_Encode (ArtistAlbumsOpt_values pkg options t) \<noteq> []"
  unfolding Values_Encode_def Values_pairs_ArtistAlbumsOpt
  by (rule strings_Join_nonempty) (auto split: option.splits)

lemma ArtistAlbumsOpt_uri_Some:
  "ArtistAlbumsOpt_uri pkg artistID (Some options) t =
     baseAddress pkg @ ''artists/'' @ artistID @ ''/albums?'' @
     Values_Encode (ArtistAlbumsOpt_values pkg options t)"
  by (simp add: ArtistAlbumsOpt_uri_def Let_def Values_Encode_ArtistAlbumsOpt_nonempty)

lemma ArtistAlbumsOpt_uri_None:
  "ArtistAlbumsOpt_uri pkg artistID None t = baseAddress pkg @ ''artists/'' @ artistID @ ''/albums''"
  by (simp add: ArtistAlbumsOpt_uri_def)

lemma pairs_no_amp:
  "\<forall>x \<in> set (Values_pairs (ArtistAlbumsOpt_values pkg options t)). CHR ''&'' \<notin> set x"
  unfolding Values_pairs_ArtistAlbumsOpt
  by (auto simp: QueryEscape_no_amp split: option.splits)

text \<open>
  C1: when \<^verbatim>\<open>options\<close> is not nil and its \<^verbatim>\<open>Country\<close> is nil, the URL ends in a query
  string that, split at \<^verbatim>\<open>&\<close>, has the parameter \<^verbatim>\<open>market\<close> with the escaped fallback
  code \<^verbatim>\<open>CountryUSA\<close>; the parameter is not left out.
\<close>

theorem market_fallback:
  assumes "Options.Country options = None"
  shows "ArtistAlbumsOpt_uri pkg artistID (Some options) t =
           baseAddress pkg @ ''artists/'' @ artistID @ ''/albums?'' @
           Values_Encode (ArtistAlbumsOpt_values pkg options t)
         \<and> ''market='' @ QueryEscape (CountryUSA pkg)
             \<in> set (strings_Split (Values_Encode (ArtistAlbumsOpt_values pkg options t)) (CHR ''&''))
         \<and> map_of (ArtistAlbumsOpt_values pkg options t) ''market'' = Some [CountryUSA pkg]"
proof -
  let ?ps = "Values_pairs (ArtistAlbumsOpt_values pkg options t)"
  have ne: "?ps \<noteq> []" unfolding Values_pairs_ArtistAlbumsOpt by simp
  have "strings_Split (strings_Join ?ps [CHR ''&'']) (CHR ''&'') = ?ps"
    using ne pairs_no_amp by (rule strings_Split_Join)
  moreover have "''market='' @ QueryEscape (CountryUSA pkg) \<in> set ?ps"
    unfolding Values_pairs_ArtistAlbumsOpt using assms by simp
  moreover have "map_of (ArtistAlbumsOpt_values pkg options t) ''market'' = Some [CountryUSA pkg]"
    using assms
    by (cases t; cases "Options.Limit options"; cases "Options.Offset options")
       (simp_all add: ArtistAlbumsOpt_values_def Values_Set_def Let_def)
  ultimately show ?thesis
    by (simp add: ArtistAlbumsOpt_uri_Some Values_Encode_def)
qed

theorem market_fallback_witness:
  "Options.Country no_options = None
   \<and> ArtistAlbumsOpt_uri example_package ''0OdUWJ0sBjDrqHygGUXeCF'' (Some no_options) (Some 1) =
       ''https://api.spotify.com/v1/artists/0OdUWJ0sBjDrqHygGUXeCF/albums?album_type=album&market=US''
   \<and> ''market=US'' \<in> set (strings_Split ''album_type=album&market=US'' (CHR ''&''))"
proof -
  have c: "Options.Country no_options = None" by (simp add: no_options_def)
  have v: "Values_Encode (ArtistAlbumsOpt_values example_package no_options (Some 1)) =
             ''album_type=album&market=US''"
    by code_simp
  have q: "QueryEscape (CountryUSA example_package) = ''US''"
    by code_simp
  from market_fallback [OF c, of example_package "''0OdUWJ0sBjDrqHygGUXeCF''" "Some 1"]
  show ?thesis unfolding v q using c by (simp add: example_package_def)
qed

text \<open>
  C8: when \<^verbatim>\<open>options\<close> is not nil the query string has the parameters that were set and
  the market (the given one or the fallback) and no other, every value escaped (an
  escaped value unescapes to the value), in the order of the keys (\<^verbatim>\<open>album_type\<close>,
  \<^verbatim>\<open>limit\<close>, \<^verbatim>\<open>market\<close>, \<^verbatim>\<open>offset\<close>); the text of \<^verbatim>\<open>Limit\<close> and \<^verbatim>\<open>Offset\<close> is decimal
  (it reads back as the number, and escaping does not change it).
\<close>

theorem query_string_exact:
  "ArtistAlbumsOpt_uri pkg artistID (Some options) t =
     baseAddress pkg @ ''artists/'' @ artistID @ ''/albums?'' @
     strings_Join
       ((case t of None \<Rightarrow> [] | Some a \<Rightarrow> [''album_type='' @ QueryEscape (AlbumType_encode pkg a)]) @
        (case Options.Limit options of None \<Rightarrow> [] | Some l \<Rightarrow> [''limit='' @ QueryEscape (Itoa l)]) @
        [''market='' @ QueryEscape (case Options.Country options of None \<Rightarrow> CountryUSA pkg | Some c \<Rightarrow> c)] @
        (case Options.Offset options of None \<Rightarrow> [] | Some off \<Rightarrow> [''offset='' @ QueryEscape (Itoa off)]))
       ''&''
   \<and> (\<forall>v. QueryUnescape (QueryEscape v) = Some v)
   \<and> (\<forall>n. QueryEscape (Itoa n) = Itoa n \<and> Atoi (Itoa n) = Some n)"
  by (simp add: ArtistAlbumsOpt_uri_Some Values_Encode_def Values_pairs_ArtistAlbumsOpt
        QueryEscape_Itoa Atoi_Itoa QueryUnescape_QueryEscape)

theorem query_string_exact_witness:
  "ArtistAlbumsOpt_uri example_package ''0OdUWJ0sBjDrqHygGUXeCF'' (Some some_options) (Some 3) =
     ''https://api.spotify.com/v1/artists/0OdUWJ0sBjDrqHygGUXeCF/albums?album_type=album%2Csingle&limit=10&market=SE&offset=20''
   \<and> ArtistAlbumsOpt_uri example_package ''0OdUWJ0sBjDrqHygGUXeCF''
        (Some \<lparr>Country = Some ''a b&c'', Options.Limit = None, Options.Offset = Some (- 3)\<rparr>) None =
     ''https://api.spotify.com/v1/artists/0OdUWJ0sBjDrqHygGUXeCF/albums?market=a+b%26c&offset=-3''
   \<and> Atoi ''-3'' = Some (- 3)"
proof -
  have i: "Itoa 10 = ''10''" "Itoa 20 = ''20''" "Itoa (- 3) = ''-3''"
    by code_simp+
  have a: "AlbumType_encode_tokens example_names 3 = ''album,single''"
    by code_simp
  have e: "QueryEscape ''album,single'' = ''album%2Csingle''" "QueryEscape ''SE'' = ''SE''"
    "QueryEscape ''10'' = ''10''" "QueryEscape ''20'' = ''20''" "QueryEscape ''-3'' = ''-3''"
    "QueryEscape ''a b&c'' = ''a+b%26c''"
    by code_simp+
  have "Atoi (Itoa (- 3)) = Some (- 3)"
    using query_string_exact [of example_package "''0OdUWJ0sBjDrqHygGUXeCF''" some_options "Some 3"]
    by blast
  then have "Atoi ''-3'' = Some (- 3)"
    by (simp only: i)
  then show ?thesis
    using query_string_exact [of example_package "''0OdUWJ0sBjDrqHygGUXeCF''" some_options "Some 3"]
      query_string_exact [of example_package "''0OdUWJ0sBjDrqHygGUXeCF''"
        "\<lparr>Country = Some ''a b&c'', Options.Limit = None, Options.Offset = Some (- 3)\<rparr>" None]
    by (simp add: example_package_def some_options_def i a e del: Atoi.simps)
qed

text \<open>
  C2 as stated fails: for options that are not nil and have no field set, and no album
  type, the query string is not empty.
\<close>

theorem empty_options_query_counterexample:
  "Values_Encode (ArtistAlbumsOpt_values example_package no_options None) \<noteq> []
   \<and> ArtistAlbumsOpt_uri example_package ''0OdUWJ0sBjDrqHygGUXeCF'' (Some no_options) None =
       ''https://api.spotify.com/v1/artists/0OdUWJ0sBjDrqHygGUXeCF/albums?market=US''"
proof -
  have "Values_Encode (ArtistAlbumsOpt_values example_package no_options None) = ''market=US''"
    by code_simp
  then show ?thesis
    by (simp add: ArtistAlbumsOpt_uri_Some example_package_def)
qed

text \<open>
  C2, amended: for options that are not nil and have no field set, and no album type,
  the query string is the market parameter with the fallback code and nothing else;
  for nil options no query string is appended.
\<close>

theorem empty_options_query:
  assumes "Options.Country options = None" "Options.Limit options = None"
    "Options.Offset options = None"
  shows "Values_Encode (ArtistAlbumsOpt_values pkg options None) = ''market='' @ QueryEscape (CountryUSA pkg)
       \<and> ArtistAlbumsOpt_uri pkg artistID (Some options) None =
           baseAddress pkg @ ''artists/'' @ artistID @ ''/albums?market='' @ QueryEscape (CountryUSA pkg)
       \<and> ArtistAlbumsOpt_uri pkg artistID None t =
           baseAddress pkg @ ''artists/'' @ artistID @ ''/albums''"
  using assms
  by (simp add: ArtistAlbumsOpt_uri_Some ArtistAlbumsOpt_uri_None Values_Encode_def
        Values_pairs_ArtistAlbumsOpt)

theorem empty_options_query_witness:
  "Values_Encode (ArtistAlbumsOpt_values example_package no_options None) = ''market=US''
   \<and> ArtistAlbumsOpt_uri example_package ''0OdUWJ0sBjDrqHygGUXeCF'' None (Some 1) =
       ''https://api.spotify.com/v1/artists/0OdUWJ0sBjDrqHygGUXeCF/albums''"
proof -
  have q: "QueryEscape (CountryUSA example_package) = ''US''"
    by code_simp
  show ?thesis
    using empty_options_query [of no_options example_package "''0OdUWJ0sBjDrqHygGUXeCF''" "Some 1"]
    unfolding q by (simp add: no_options_def example_package_def)
qed

lemma ArtistAlbumsOpt_transport_cong:
  assumes "http_Get c (ArtistAlbumsOpt_uri pkg artistID options t) w =
           http_Get c' (ArtistAlbumsOpt_uri pkg artistID options t) w"
  shows "ArtistAlbumsOpt pkg store c artistID options t w =
         ArtistAlbumsOpt pkg store c' artistID options t w"
  using assms by (simp add: ArtistAlbumsOpt_def)

subsection \<open>Absent options\<close>

text \<open>
  C7: \<^verbatim>\<open>ArtistAlbums(artistID)\<close> returns what \<^verbatim>\<open>ArtistAlbumsOpt(artistID, nil, nil)\<close>
  returns, for every transport and state; the URL has no query string, and the result
  depends on the transport only through its answer for that URL.
\<close>

theorem ArtistAlbums_eq_ArtistAlbumsOpt_nil:
  "ArtistAlbums pkg store c artistID w = ArtistAlbumsOpt pkg store c artistID None None w
   \<and> ArtistAlbumsOpt_uri pkg artistID None None = baseAddress pkg @ ''artists/'' @ artistID @ ''/albums''
   \<and> (http_Get c (baseAddress pkg @ ''artists/'' @ artistID @ ''/albums'') w =
        http_Get c' (baseAddress pkg @ ''artists/'' @ artistID @ ''/albums'') w
      \<longrightarrow> ArtistAlbums pkg store c artistID w = ArtistAlbumsOpt pkg store c' artistID None None w)"
  using ArtistAlbumsOpt_transport_cong [of c pkg artistID None None w c' store]
  by (simp add: ArtistAlbums_def ArtistAlbumsOpt_uri_None)

text \<open>
  C10: with nil options an album type is ignored: the URL has no query string, and the
  call returns what the call without album type returns.
\<close>

theorem nil_options_ignore_album_type:
  "ArtistAlbumsOpt pkg store c artistID None (Some t) w = ArtistAlbumsOpt pkg store c artistID None None w
   \<and> ArtistAlbumsOpt_uri pkg artistID None (Some t) = baseAddress pkg @ ''artists/'' @ artistID @ ''/albums''"
  by (simp add: ArtistAlbumsOpt_def ArtistAlbumsOpt_uri_None)


theorem ArtistAlbums_eq_ArtistAlbumsOpt_nil_witness:
  "ArtistAlbums example_package store_name refusing_client ''0OdUWJ0sBjDrqHygGUXeCF'' [] =
     (Inl (Other ConnectionRefused), [''https://api.spotify.com/v1/artists/0OdUWJ0sBjDrqHygGUXeCF/albums''])
   \<and> ArtistAlbumsOpt example_package store_name refusing_client ''0OdUWJ0sBjDrqHygGUXeCF'' None None [] =
     (Inl (Other ConnectionRefused), [''https://api.spotify.com/v1/artists/0OdUWJ0sBjDrqHygGUXeCF/albums''])"
proof -
  have "ArtistAlbumsOpt example_package store_name refusing_client ''0OdUWJ0sBjDrqHygGUXeCF'' None None [] =
     (Inl (Other ConnectionRefused), [''https://api.spotify.com/v1/artists/0OdUWJ0sBjDrqHygGUXeCF/albums''])"
    by (simp add: ArtistAlbumsOpt_def ArtistAlbumsOpt_uri_None refusing_client_def example_package_def)
  then show ?thesis
    using ArtistAlbums_eq_ArtistAlbumsOpt_nil [of example_package store_name refusing_client
        "''0OdUWJ0sBjDrqHygGUXeCF''" "[]" refusing_client]
    by simp
qed

theorem nil_options_ignore_album_type_witness:
  "ArtistAlbumsOpt example_package store_name refusing_client ''0OdUWJ0sBjDrqHygGUXeCF'' None (Some 3) [] =
     (Inl (Other ConnectionRefused), [''https://api.spotify.com/v1/artists/0OdUWJ0sBjDrqHygGUXeCF/albums''])
   \<and> ArtistAlbumsOpt_uri example_package ''0OdUWJ0sBjDrqHygGUXeCF'' None (Some 3) =
       ''https://api.spotify.com/v1/artists/0OdUWJ0sBjDrqHygGUXeCF/albums''"
proof -
  have "ArtistAlbumsOpt example_package store_name refusing_client ''0OdUWJ0sBjDrqHygGUXeCF'' None None [] =
     (Inl (Other ConnectionRefused), [''https://api.spotify.com/v1/artists/0OdUWJ0sBjDrqHygGUXeCF/albums''])"
    by (simp add: ArtistAlbumsOpt_def ArtistAlbumsOpt_uri_None refusing_client_def example_package_def)
  then show ?thesis
    using nil_options_ignore_album_type [of example_package store_name refusing_client
        "''0OdUWJ0sBjDrqHygGUXeCF''" 3 "[]"]
    by (simp add: example_package_def)
qed

subsection \<open>Failures\<close>

text \<open>
  C6: when the transport's \<^verbatim>\<open>Get\<close> fails, every method returns that error as it is, in
  the state the one \<^verbatim>\<open>Get\<close> left: no second request is made and nothing is decoded.
\<close>

theorem transport_error_unchanged:
  "(http_Get c (baseAddress pkg @ ''artists/'' @ ident) w = (Inl err, w')
      \<longrightarrow> FindArtist pkg store c ident w = (Inl err, w'))
   \<and> (http_Get c (baseAddress pkg @ ''artists?ids='' @ strings_Join (toStringSlice pkg ids) '','') w = (Inl err, w')
      \<longrightarrow> FindArtists pkg store c ids w = (Inl err, w'))
   \<and> (http_Get c (baseAddress pkg @ ''artists/'' @ ident @ ''/top-tracks?country='' @ country) w = (Inl err, w')
      \<longrightarrow> ArtistsTopTracks pkg store_track c ident country w = (Inl err, w'))
   \<and> (http_Get c (baseAddress pkg @ ''artists/'' @ ident @ ''/related-artists'') w = (Inl err, w')
      \<longrightarrow> FindRelatedArtists pkg store c ident w = (Inl err, w'))
   \<and> (http_Get c (ArtistAlbumsOpt_uri pkg ident options t) w = (Inl err, w')
      \<longrightarrow> ArtistAlbumsOpt pkg store_album c ident options t w = (Inl err, w'))
   \<and> (http_Get c (ArtistAlbumsOpt_uri pkg ident None None) w = (Inl err, w')
      \<longrightarrow> ArtistAlbums pkg store_album c ident w = (Inl err, w'))"
  by (simp add: FindArtist_def FindArtists_def ArtistsTopTracks_def FindRelatedArtists_def
        ArtistAlbumsOpt_def ArtistAlbums_def)

theorem transport_error_unchanged_witness:
  "FindArtist example_package store_name refusing_client ''0OdUWJ0sBjDrqHygGUXeCF'' [] =
     (Inl (Other ConnectionRefused), [''https://api.spotify.com/v1/artists/0OdUWJ0sBjDrqHygGUXeCF''])
   \<and> ArtistAlbumsOpt example_package store_name refusing_client ''0OdUWJ0sBjDrqHygGUXeCF'' (Some no_options) None [] =
     (Inl (Other ConnectionRefused), [''https://api.spotify.com/v1/artists/0OdUWJ0sBjDrqHygGUXeCF/albums?market=US''])"
proof -
  have u: "ArtistAlbumsOpt_uri example_package ''0OdUWJ0sBjDrqHygGUXeCF'' (Some no_options) None =
      ''https://api.spotify.com/v1/artists/0OdUWJ0sBjDrqHygGUXeCF/albums?market=US''"
    by code_simp
  have g: "http_Get refusing_client uri [] = (Inl (Other ConnectionRefused), [uri])" for uri
    by (simp add: refusing_client_def)
  have b: "baseAddress example_package = ''https://api.spotify.com/v1/''"
    by (simp add: example_package_def)
  have "FindArtist example_package store_name refusing_client ''0OdUWJ0sBjDrqHygGUXeCF'' [] =
     (Inl (Other ConnectionRefused), [''https://api.spotify.com/v1/artists/0OdUWJ0sBjDrqHygGUXeCF''])"
    by (rule transport_error_unchanged [THEN conjunct1, THEN mp]) (simp add: g b)
  moreover
  have "ArtistAlbumsOpt example_package store_name refusing_client ''0OdUWJ0sBjDrqHygGUXeCF'' (Some no_options) None [] =
     (Inl (Other ConnectionRefused), [''https://api.spotify.com/v1/artists/0OdUWJ0sBjDrqHygGUXeCF/albums?market=US''])"
    by (rule transport_error_unchanged
          [THEN conjunct2, THEN conjunct2, THEN conjunct2, THEN conjunct2, THEN conjunct1, THEN mp])
       (simp add: g u)
  ultimately show ?thesis by simp
qed

text \<open>
  C3: when the status of the response is not a success (not 2xx), every method returns
  the error that \<^verbatim>\<open>decodeError\<close> makes of the body, and no decoded result; so
  \<^verbatim>\<open>FindArtist\<close> for an identifier the service answers with 404 returns an error.
\<close>

theorem non_success_status_is_decoded_error:
  assumes "\<not> (200 \<le> StatusCode resp \<and> StatusCode resp < 300)"
  shows "(http_Get c (baseAddress pkg @ ''artists/'' @ ident) w = (Inr resp, w')
      \<longrightarrow> FindArtist pkg store c ident w = (Inl (decodeError pkg (Body resp)), w'))
   \<and> (http_Get c (baseAddress pkg @ ''artists?ids='' @ strings_Join (toStringSlice pkg ids) '','') w = (Inr resp, w')
      \<longrightarrow> FindArtists pkg store c ids w = (Inl (decodeError pkg (Body resp)), w'))
   \<and> (http_Get c (baseAddress pkg @ ''artists/'' @ ident @ ''/top-tracks?country='' @ country) w = (Inr resp, w')
      \<longrightarrow> ArtistsTopTracks pkg store_track c ident country w = (Inl (decodeError pkg (Body resp)), w'))
   \<and> (http_Get c (baseAddress pkg @ ''artists/'' @ ident @ ''/related-artists'') w = (Inr resp, w')
      \<longrightarrow> FindRelatedArtists pkg store c ident w = (Inl (decodeError pkg (Body resp)), w'))
   \<and> (http_Get c (ArtistAlbumsOpt_uri pkg ident options t) w = (Inr resp, w')
      \<longrightarrow> ArtistAlbumsOpt pkg store_album c ident options t w = (Inl (decodeError pkg (Body resp)), w'))
   \<and> (http_Get c (ArtistAlbumsOpt_uri pkg ident None None) w = (Inr resp, w')
      \<longrightarrow> ArtistAlbums pkg store_album c ident w = (Inl (decodeError pkg (Body resp)), w'))"
proof -
  from assms have "StatusCode resp \<noteq> StatusOK" by (auto simp: StatusOK_def)
  then show ?thesis
    by (simp add: FindArtist_def FindArtists_def ArtistsTopTracks_def FindRelatedArtists_def
        ArtistAlbumsOpt_def ArtistAlbums_def)
qed

theorem non_success_status_is_decoded_error_witness:
  "\<not> (200 \<le> StatusCode not_found \<and> StatusCode not_found < 300)
   \<and> FindArtist example_package store_name (serving_client not_found) ''unknown'' [] =
       (Inl (Other (ApiError 404 ''not found'')), [''https://api.spotify.com/v1/artists/unknown''])"
proof -
  have s: "\<not> (200 \<le> StatusCode not_found \<and> StatusCode not_found < 300)"
    by (simp add: not_found_def)
  have d: "decodeError example_package (Body not_found) = Other (ApiError 404 ''not found'')"
    by code_simp
  have g: "http_Get (serving_client not_found) uri [] = (Inr not_found, [uri])" for uri
    by (simp add: serving_client_def)
  have b: "baseAddress example_package = ''https://api.spotify.com/v1/''"
    by (simp add: example_package_def)
  have "FindArtist example_package store_name (serving_client not_found) ''unknown'' [] =
       (Inl (decodeError example_package (Body not_found)), [''https://api.spotify.com/v1/artists/unknown''])"
    by (rule non_success_status_is_decoded_error [OF s, THEN conjunct1, THEN mp]) (simp add: g b)
  with s d show ?thesis by simp
qed

subsection \<open>Decoded results\<close>

lemma those_map_Some: "map f xs = map Some ys \<Longrightarrow> those (map f xs) = Some ys"
proof (induction xs arbitrary: ys)
  case Nil
  then show ?case by simp
next
  case (Cons x xs)
  then obtain y ys' where "ys = y # ys'" "f x = Some y" "map f xs = map Some ys'"
    by (cases ys) auto
  with Cons.IH show ?case by simp
qed

lemma store_members_no_match:
  "filter (\<lambda>(k, v). key_matches name k) ms = [] \<Longrightarrow> store_members name elem ms acc = Some acc"
  by (induction ms) (auto split: if_splits)

lemma store_members_one_array:
  assumes "filter (\<lambda>(k, v). key_matches name k) ms = [(k, JArray xs)]"
  shows "store_members name elem ms acc = those (map elem xs)"
  using assms
proof (induction ms)
  case Nil
  then show ?case by simp
next
  case (Cons m ms)
  obtain k' v' where m: "m = (k', v')" by (cases m)
  show ?case
  proof (cases "key_matches name k'")
    case True
    with Cons.prems m have "v' = JArray xs" "filter (\<lambda>(k, v). key_matches name k) ms = []"
      by simp_all
    with True m show ?thesis
      by (simp add: store_slice_def store_members_no_match split: option.splits)
  next
    case False
    with Cons m show ?thesis by simp
  qed
qed

lemma store_pointer_those:
  assumes "\<forall>x\<in>set xs. x \<noteq> JNull \<longrightarrow> store x \<noteq> None"
  shows "those (map (store_pointer store) xs) = Some (map (\<lambda>x. if x = JNull then None else store x) xs)"
proof (rule those_map_Some)
  show "map (store_pointer store) xs = map Some (map (\<lambda>x. if x = JNull then None else store x) xs)"
    using assms by (auto simp: store_pointer_def split: json.splits)
qed

lemma store_name_object: "store_name (JObject [(''name'', JString n)]) = Some n"
  by (simp add: store_name_def)

text \<open>
  C5: when the answer to \<^verbatim>\<open>FindArtists\<close> is an object with one member for the field
  \<^verbatim>\<open>Artists\<close>, an array, the result has one entry for every element of the array, in
  the order of the array: nil where the element is \<^verbatim>\<open>null\<close>, the decoded entity
  elsewhere. Nothing is dropped, sorted or merged, so an entity that occurs twice in
  the answer occurs twice in the result.
\<close>

theorem FindArtists_order_and_holes:
  assumes "http_Get c (baseAddress pkg @ ''artists?ids='' @ strings_Join (toStringSlice pkg ids) '','') w
             = (Inr resp, w')"
    and "StatusCode resp = StatusOK"
    and "Body resp = Some (JObject ms)"
    and "filter (\<lambda>(k, v). key_matches ''Artists'' k) ms = [(k, JArray xs)]"
    and "\<forall>x\<in>set xs. x \<noteq> JNull \<longrightarrow> store x \<noteq> None"
  shows "FindArtists pkg store c ids w =
           (Inr (map (\<lambda>x. if x = JNull then None else store x) xs), w')"
proof -
  have "store_wrapper ''Artists'' (store_pointer store) (JObject ms) =
          Some (map (\<lambda>x. if x = JNull then None else store x) xs)"
    using store_members_one_array [OF assms(4), of "store_pointer store" "[]"]
      store_pointer_those [OF assms(5)]
    by (simp add: store_wrapper_def)
  with assms(1-3) show ?thesis
    by (simp add: FindArtists_def Decode_def)
qed

theorem FindArtists_order_and_holes_witness:
  "FindArtists example_package store_name (serving_client four_artists) [''A'', ''B'', ''A'', ''Z''] [] =
     (Inr [Some ''Alpha'', Some ''Beta'', Some ''Alpha'', None],
      [''https://api.spotify.com/v1/artists?ids=A,B,A,Z''])"
proof -
  have u: "baseAddress example_package @ ''artists?ids='' @
             strings_Join (toStringSlice example_package [''A'', ''B'', ''A'', ''Z'']) '','' =
           ''https://api.spotify.com/v1/artists?ids=A,B,A,Z''"
    by (simp add: example_package_def)
  have g: "http_Get (serving_client four_artists)
             (baseAddress example_package @ ''artists?ids='' @
                strings_Join (toStringSlice example_package [''A'', ''B'', ''A'', ''Z'']) '','') [] =
           (Inr four_artists, [''https://api.spotify.com/v1/artists?ids=A,B,A,Z''])"
    unfolding u by (simp add: serving_client_def)
  have s: "StatusCode four_artists = StatusOK"
    by (simp add: four_artists_def StatusOK_def)
  have b: "Body four_artists = Some (JObject [(''artists'', JArray artist_objects)])"
    by (simp add: four_artists_def)
  have m: "key_matches ''Artists'' ''artists''"
    by code_simp
  have f: "filter (\<lambda>(k, v). key_matches ''Artists'' k) [(''artists'', JArray artist_objects)] =
           [(''artists'', JArray artist_objects)]"
    using m by simp
  have d: "\<forall>x\<in>set artist_objects. x \<noteq> JNull \<longrightarrow> store_name x \<noteq> None"
    by (simp add: artist_objects_def store_name_object)
  show ?thesis
    using FindArtists_order_and_holes [OF g s b f d]
    by (simp add: artist_objects_def store_name_object)
qed

text \<open>
  An envelope with the members of section 6, with integers in range, decodes to exactly
  its values.
\<close>

lemma fold_envelope_keys:
  "foldName ''href'' = ''HREF''" "foldName ''items'' = ''ITEMS''" "foldName ''limit'' = ''LIMIT''"
  "foldName ''next'' = ''NEXT''" "foldName ''offset'' = ''OFFSET''"
  "foldName ''previous'' = ''PREVIOUS''" "foldName ''total'' = ''TOTAL''"
  by (simp_all add: to_upper_def)

lemma store_int_Itoa:
  "- (2 ^ 63) \<le> n \<Longrightarrow> n < 2 ^ 63 \<Longrightarrow> store_int old (JNumber (Itoa n)) = Some n"
  by (simp add: store_int_def Atoi_Itoa)

lemma rawPage_member_keys:
  "rawPage_member ''href'' v p = map_option (\<lambda>s. p\<lparr>rawPage.Endpoint := s\<rparr>) (store_string (rawPage.Endpoint p) v)"
  "rawPage_member ''limit'' v p = map_option (\<lambda>n. p\<lparr>rawPage.Limit := n\<rparr>) (store_int (rawPage.Limit p) v)"
  "rawPage_member ''offset'' v p = map_option (\<lambda>n. p\<lparr>rawPage.Offset := n\<rparr>) (store_int (rawPage.Offset p) v)"
  "rawPage_member ''total'' v p = map_option (\<lambda>n. p\<lparr>rawPage.Total := n\<rparr>) (store_int (rawPage.Total p) v)"
  "rawPage_member ''next'' v p = map_option (\<lambda>s. p\<lparr>rawPage.Next := s\<rparr>) (store_string (rawPage.Next p) v)"
  "rawPage_member ''previous'' v p = map_option (\<lambda>s. p\<lparr>rawPage.Previous := s\<rparr>) (store_string (rawPage.Previous p) v)"
  "rawPage_member ''items'' v p = Some (p\<lparr>Items := Some v\<rparr>)"
  by (simp_all add: rawPage_member_def key_matches_def fold_envelope_keys del: foldName.simps)


lemma store_rawPage_envelope:
  assumes "- (2 ^ 63) \<le> l" "l < 2 ^ 63" "- (2 ^ 63) \<le> off" "off < 2 ^ 63"
    "- (2 ^ 63) \<le> tot" "tot < 2 ^ 63"
  shows "store_rawPage (JObject
           [(''href'', JString h), (''items'', JArray xs), (''limit'', JNumber (Itoa l)),
            (''next'', JString nx), (''offset'', JNumber (Itoa off)),
            (''previous'', JString pv), (''total'', JNumber (Itoa tot))]) =
         Some \<lparr>rawPage.Endpoint = h, rawPage.Limit = l, rawPage.Offset = off, rawPage.Total = tot,
               rawPage.Next = nx, rawPage.Previous = pv, Items = Some (JArray xs)\<rparr>"
  using assms
  by (simp add: store_rawPage_def rawPage_member_keys store_string_def store_int_Itoa rawPage_zero_def)

text \<open>
  C4: when the envelope decodes to \<open>p\<close> and the elements of its items array decode to
  \<open>albums\<close>, the page returned has the total, limit, offset, endpoint, next and previous
  of \<open>p\<close>, and \<open>albums\<close> as its items: as many as the array has elements, in its order.
\<close>

theorem ArtistAlbumsOpt_page:
  assumes "http_Get c (ArtistAlbumsOpt_uri pkg artistID options t) w = (Inr resp, w')"
    and "StatusCode resp = StatusOK"
    and "Body resp = Some j"
    and "store_rawPage j = Some p"
    and "Items p = Some (JArray xs)"
    and "map store xs = map Some albums"
  shows "ArtistAlbumsOpt pkg store c artistID options t w =
           (Inr \<lparr>Endpoint = rawPage.Endpoint p, Limit = rawPage.Limit p, Offset = rawPage.Offset p,
                 Total = rawPage.Total p, Next = rawPage.Next p, Previous = rawPage.Previous p,
                 Albums = albums\<rparr>, w')
         \<and> length albums = length xs"
proof -
  have "those (map store xs) = Some albums"
    using assms(6) by (rule those_map_Some)
  moreover have "length albums = length xs"
    using assms(6) by (metis length_map)
  ultimately show ?thesis
    using assms(1-5)
    by (simp add: ArtistAlbumsOpt_def Decode_def Unmarshal_def store_slice_def)
qed

theorem ArtistAlbumsOpt_page_witness:
  "ArtistAlbumsOpt example_package store_name (serving_client album_page) ''X'' (Some some_options) None [] =
     (Inr \<lparr>Endpoint = ''https://api.spotify.com/v1/artists/X/albums?offset=20&limit=10'',
           Limit = 10, Offset = 20, Total = 37,
           Next = ''https://api.spotify.com/v1/artists/X/albums?offset=30&limit=10'',
           Previous = ''https://api.spotify.com/v1/artists/X/albums?offset=10&limit=10'',
           Albums = [''a0'', ''a1'', ''a2'', ''a3'', ''a4'', ''a5'', ''a6'', ''a7'', ''a8'', ''a9'']\<rparr>,
      [''https://api.spotify.com/v1/artists/X/albums?limit=10&market=SE&offset=20''])
   \<and> length album_objects = 10"
proof -
  let ?p = "\<lparr>rawPage.Endpoint = ''https://api.spotify.com/v1/artists/X/albums?offset=20&limit=10'',
             rawPage.Limit = 10, rawPage.Offset = 20, rawPage.Total = 37,
             rawPage.Next = ''https://api.spotify.com/v1/artists/X/albums?offset=30&limit=10'',
             rawPage.Previous = ''https://api.spotify.com/v1/artists/X/albums?offset=10&limit=10'',
             Items = Some (JArray album_objects)\<rparr>"
  have u: "ArtistAlbumsOpt_uri example_package ''X'' (Some some_options) None =
           ''https://api.spotify.com/v1/artists/X/albums?limit=10&market=SE&offset=20''"
    by code_simp
  have g: "http_Get (serving_client album_page)
             (ArtistAlbumsOpt_uri example_package ''X'' (Some some_options) None) [] =
           (Inr album_page, [''https://api.spotify.com/v1/artists/X/albums?limit=10&market=SE&offset=20''])"
    unfolding u by (simp add: serving_client_def)
  have s: "StatusCode album_page = StatusOK"
    by (simp add: album_page_def StatusOK_def)
  have b: "Body album_page = Some album_envelope"
    by (simp add: album_page_def)
  have r: "store_rawPage album_envelope = Some ?p"
    by code_simp
  have i: "Items ?p = Some (JArray album_objects)"
    by simp
  have d: "map store_name album_objects = map Some album_names"
    by (simp add: album_objects_def store_name_object)
  show ?thesis
    using ArtistAlbumsOpt_page [OF g s b r i d]
    by (simp add: album_names_def)
qed

subsection \<open>Album types\<close>

lemma bit_fold_flags:
  "bit (fold (\<lambda>i a. a OR AlbumType_flag i) cs a0) j \<longleftrightarrow> bit a0 j \<or> j \<in> set cs"
  by (induction cs arbitrary: a0) (auto simp: AlbumType_flag_def bit_or_iff bit_exp_iff)

lemma bit_AlbumType_combine: "bit (AlbumType_combine cs) j \<longleftrightarrow> j \<in> set cs"
  by (simp add: AlbumType_combine_def bit_fold_flags)

lemma strings_Split_Join_set:
  assumes "\<forall>x\<in>set xs. x \<noteq> [] \<and> sep \<notin> set x" and "y \<noteq> []"
  shows "y \<in> set (strings_Split (strings_Join xs [sep]) sep) \<longleftrightarrow> y \<in> set xs"
proof (cases "xs = []")
  case True
  with assms(2) show ?thesis by simp
next
  case False
  with assms(1) have "strings_Split (strings_Join xs [sep]) sep = xs"
    by (simp add: strings_Split_Join)
  then show ?thesis by simp
qed

text \<open>
  C9: for a table of distinct tokens, none empty and none with a comma, and every list
  of categories of the table: combining their flags by OR, encoding the value and
  decoding the text gives the set of the categories again.
\<close>

theorem AlbumType_round_trip:
  assumes "distinct names"
    and "\<forall>n\<in>set names. n \<noteq> [] \<and> CHR '','' \<notin> set n"
    and "set cs \<subseteq> {..<length names}"
  shows "set (AlbumType_decode_tokens names (AlbumType_encode_tokens names (AlbumType_combine cs)))
           = set cs"
proof -
  let ?sel = "filter (\<lambda>i. bit (AlbumType_combine cs) i) [0..<length names]"
  let ?toks = "map (\<lambda>i. names ! i) ?sel"
  have sel: "set ?sel = set cs"
    using assms(3) by (auto simp: bit_AlbumType_combine)
  have toks: "\<forall>x\<in>set ?toks. x \<noteq> [] \<and> CHR '','' \<notin> set x"
    using assms(2) by auto
  have "i \<in> set cs \<longleftrightarrow> names ! i \<in> set (strings_Split (strings_Join ?toks '','') (CHR '',''))"
    if "i < length names" for i
  proof -
    from that assms(2) have "names ! i \<noteq> []" by auto
    with toks have "names ! i \<in> set (strings_Split (strings_Join ?toks '','') (CHR '','')) \<longleftrightarrow>
        names ! i \<in> set ?toks"
      by (rule strings_Split_Join_set)
    also have "\<dots> \<longleftrightarrow> i \<in> set ?sel"
      using that assms(1) by (auto simp: nth_eq_iff_index_eq)
    also have "\<dots> \<longleftrightarrow> i \<in> set cs"
      by (simp only: sel)
    finally show ?thesis by simp
  qed
  with assms(3) show ?thesis
    by (auto simp: AlbumType_decode_tokens_def AlbumType_encode_tokens_def)
qed

theorem AlbumType_round_trip_witness:
  "AlbumType_combine [0, 2] = 5
   \<and> AlbumType_encode_tokens example_names 5 = ''album,appears_on''
   \<and> set (AlbumType_decode_tokens example_names ''album,appears_on'') = {0, 2}"
proof -
  have c: "AlbumType_combine [0, 2] = 5"
    by (simp add: AlbumType_combine_def AlbumType_flag_def)
  have e: "AlbumType_encode_tokens example_names 5 = ''album,appears_on''"
    by code_simp
  have d: "distinct example_names" "\<forall>n\<in>set example_names. n \<noteq> [] \<and> CHR '','' \<notin> set n"
    "set [0, 2] \<subseteq> {..<length example_names}"
    by (simp_all add: example_names_def)
  show ?thesis
    using AlbumType_round_trip [OF d] c e by simp
qed

end
